theory Spec2Isabelle
  imports Main
begin

section \<open>The capture device descriptor of tiscamera (src/CaptureDevice.cpp)\<close>

text \<open>
  \<^verbatim>\<open>CaptureDevice\<close> is a value object around one \<^verbatim>\<open>struct tis_device_info\<close>: two
  constructors, a copy assignment and six read-only accessors. The struct and the
  enumeration \<^verbatim>\<open>TIS_DEVICE_TYPE\<close> are declared in \<^verbatim>\<open>device_discovery.h\<close>, the class in
  \<^verbatim>\<open>CaptureDevice.h\<close>; the source file shows how they are used:
  \<^item> \<^verbatim>\<open>device.type\<close> is assigned an enumerator and is the operand of a \<^verbatim>\<open>switch\<close>;
  \<^item> \<^verbatim>\<open>device.identifier\<close>, \<^verbatim>\<open>device.name\<close> and \<^verbatim>\<open>device.serial_number\<close> are arrays of
    \<^verbatim>\<open>char\<close> inside the struct (they are cleared with
    \<^verbatim>\<open>memset(device.name, 0, sizeof(device.name))\<close> and converted to \<^verbatim>\<open>std::string\<close>
    as C strings).
\<close>

subsection \<open>Data\<close>

text \<open>The terminator of a C string.\<close>

definition NUL :: char where
  "NUL = CHR 0x00"

text \<open>
  Modelled from the spec: the declaration of \<^verbatim>\<open>struct tis_device_info\<close>, which is in
  \<^verbatim>\<open>device_discovery.h\<close> and not in the source file. The spec's device record has a
  type and three fixed-capacity text fields; the source uses exactly these four members.
  The field \<open>type\<close> holds the raw value of the enumeration, an integer: nothing in the
  source restricts it to the named enumerators. A text field is the content of its
  \<^verbatim>\<open>char\<close> array, one list element per array element, so the length of the list is
  the capacity of the field (\<^verbatim>\<open>sizeof\<close> of the array). The capacities are declared in
  the header; no definition of the model fixes them.
\<close>

record tis_device_info =
  type :: int
  "identifier" :: "char list"
  name :: "char list"
  serial_number :: "char list"

text \<open>
  Modelled from the spec: the enumerators of \<^verbatim>\<open>enum TIS_DEVICE_TYPE\<close>, declared in the
  same header. The spec lists UNKNOWN, V4L2, ARAVIS and FIREWIRE; the source names them
  with the prefix \<^verbatim>\<open>TIS_DEVICE_TYPE_\<close>. Their integer values are not known: they are a
  parameter \<open>val\<close> of the two functions that mention an enumerator.
\<close>

datatype TIS_DEVICE_TYPE =
    TIS_DEVICE_TYPE_UNKNOWN
  | TIS_DEVICE_TYPE_V4L2
  | TIS_DEVICE_TYPE_ARAVIS
  | TIS_DEVICE_TYPE_FIREWIRE

type_synonym enum_values = "TIS_DEVICE_TYPE \<Rightarrow> int"

text \<open>
  Modelled from the spec: the data of the class, declared in \<^verbatim>\<open>CaptureDevice.h\<close>. A
  descriptor wraps exactly one device record by value; the source calls that member
  \<^verbatim>\<open>device\<close>.
\<close>

record CaptureDevice =
  device :: tis_device_info

text \<open>
  Objects live in a store, one typed heap per object type, addressed by the object's
  location. A \<^verbatim>\<open>CaptureDevice&\<close> or \<^verbatim>\<open>this\<close> is an address in \<open>devices\<close>, a
  \<^verbatim>\<open>tis_device_info&\<close> an address in \<open>infos\<close>. Storage that has not been constructed
  yet holds some arbitrary object, as memory does.
\<close>

type_synonym addr = nat

record state =
  devices :: "addr \<Rightarrow> CaptureDevice"
  infos :: "addr \<Rightarrow> tis_device_info"

subsection \<open>Library functions the source calls\<close>

text \<open>
  \<^verbatim>\<open>memset(buf, 0, sizeof(buf))\<close> on a \<^verbatim>\<open>char\<close> array: every element becomes 0, the
  array keeps its size.
\<close>

definition memset_zero :: "char list \<Rightarrow> char list" where
  "memset_zero buf = map (\<lambda>_. NUL) buf"

text \<open>
  \<^verbatim>\<open>std::string(const char*)\<close> applied to an array: the characters before the first
  terminator. With no terminator in the array the constructor reads past its end, which
  is undefined behaviour: \<open>None\<close>.
\<close>

fun std_string :: "char list \<Rightarrow> string option" where
  "std_string [] = None"
| "std_string (c # cs) =
     (if c = NUL then Some [] else map_option ((#) c) (std_string cs))"

subsection \<open>The member functions\<close>

text \<open>
  \<^verbatim>\<open>CaptureDevice::CaptureDevice (const struct tis_device_info& device_desc)
    : device(device_desc) {}\<close>
\<close>

definition CaptureDevice_from_info :: "state \<Rightarrow> addr \<Rightarrow> addr \<Rightarrow> state" where
  "CaptureDevice_from_info s this device_desc =
     s\<lparr>devices := (devices s)(this := (devices s this)\<lparr>device := infos s device_desc\<rparr>)\<rparr>"

text \<open>
  \<^verbatim>\<open>CaptureDevice::CaptureDevice ()
  {
      device.type = TIS_DEVICE_TYPE_UNKNOWN;
      memset(device.identifier, 0, sizeof(device.identifier));
      memset(device.name, 0, sizeof(device.name));
      memset(device.serial_number, 0, sizeof(device.serial_number));
  }\<close>
  The member has no initialiser: its content before the body runs is whatever the
  storage held.
\<close>

definition CaptureDevice_default :: "enum_values \<Rightarrow> state \<Rightarrow> addr \<Rightarrow> state" where
  "CaptureDevice_default val s this =
     (let d0 = device (devices s this);
          d1 = d0\<lparr>type := val TIS_DEVICE_TYPE_UNKNOWN\<rparr>;
          d2 = d1\<lparr>identifier := memset_zero (identifier d1)\<rparr>;
          d3 = d2\<lparr>name := memset_zero (name d2)\<rparr>;
          d4 = d3\<lparr>serial_number := memset_zero (serial_number d3)\<rparr>
      in s\<lparr>devices := (devices s)(this := (devices s this)\<lparr>device := d4\<rparr>)\<rparr>)"

text \<open>
  \<^verbatim>\<open>CaptureDevice& CaptureDevice::operator= (const CaptureDevice& other)
  {
      this->device = other.device;
      return *this;
  }\<close>
  The result is the reference returned and the store after the assignment.
\<close>

definition operator_assign :: "state \<Rightarrow> addr \<Rightarrow> addr \<Rightarrow> addr \<times> state" where
  "operator_assign s this other =
     (this,
      s\<lparr>devices := (devices s)(this := (devices s this)\<lparr>device := device (devices s other)\<rparr>)\<rparr>)"

text \<open>
  \<^verbatim>\<open>struct tis_device_info CaptureDevice::getInfo () const { return device; }\<close>
  The struct is returned by value: the function initialises the caller's result object,
  at \<open>ret\<close>, with a copy of the member.
\<close>

definition getInfo :: "state \<Rightarrow> addr \<Rightarrow> addr \<Rightarrow> state" where
  "getInfo s this ret = s\<lparr>infos := (infos s)(ret := device (devices s this))\<rparr>"

text \<open>
  \<^verbatim>\<open>std::string CaptureDevice::getName () const { return device.name; }\<close>
  and the same for \<^verbatim>\<open>getSerial\<close> (\<^verbatim>\<open>device.serial_number\<close>) and \<^verbatim>\<open>getIdentifier\<close>
  (\<^verbatim>\<open>device.identifier\<close>): the array decays to \<^verbatim>\<open>const char*\<close> and the returned
  string is built from it.
\<close>

definition getName :: "state \<Rightarrow> addr \<Rightarrow> string option" where
  "getName s this = std_string (name (device (devices s this)))"

definition getSerial :: "state \<Rightarrow> addr \<Rightarrow> string option" where
  "getSerial s this = std_string (serial_number (device (devices s this)))"

definition getIdentifier :: "state \<Rightarrow> addr \<Rightarrow> string option" where
  "getIdentifier s this = std_string (identifier (device (devices s this)))"

text \<open>
  \<^verbatim>\<open>enum TIS_DEVICE_TYPE CaptureDevice::getDeviceType () const { return device.type; }\<close>
\<close>

definition getDeviceType :: "state \<Rightarrow> addr \<Rightarrow> int" where
  "getDeviceType s this = type (device (devices s this))"

text \<open>
  \<^verbatim>\<open>std::string CaptureDevice::getDeviceTypeAsString () const
  {
      switch (device.type)
      {
          case TIS_DEVICE_TYPE_V4L2:     return "V4L2";
          case TIS_DEVICE_TYPE_ARAVIS:   return "Aravis";
          case TIS_DEVICE_TYPE_FIREWIRE: return "Firewire";
          default:                       return "";
      }
  }\<close>
\<close>

definition getDeviceTypeAsString :: "enum_values \<Rightarrow> state \<Rightarrow> addr \<Rightarrow> string" where
  "getDeviceTypeAsString val s this =
     (let t = type (device (devices s this))
      in if t = val TIS_DEVICE_TYPE_V4L2 then ''V4L2''
         else if t = val TIS_DEVICE_TYPE_ARAVIS then ''Aravis''
         else if t = val TIS_DEVICE_TYPE_FIREWIRE then ''Firewire''
         else '''')"

subsection \<open>Example objects\<close>

text \<open>
  One admissible numbering of the enumerators: the values a C compiler gives them when
  they are declared in the order UNKNOWN, V4L2, ARAVIS, FIREWIRE without initialisers.
\<close>

definition c_enum_values :: enum_values where
  "c_enum_values e =
     (case e of
        TIS_DEVICE_TYPE_UNKNOWN \<Rightarrow> 0
      | TIS_DEVICE_TYPE_V4L2 \<Rightarrow> 1
      | TIS_DEVICE_TYPE_ARAVIS \<Rightarrow> 2
      | TIS_DEVICE_TYPE_FIREWIRE \<Rightarrow> 3)"

text \<open>
  A V4L2 camera, in fields of capacity 16, 16 and 8, the unused elements zero.
\<close>

definition usb_camera :: tis_device_info where
  "usb_camera =
     \<lparr>type = 1,
      identifier = ''/dev/video0'' @ [NUL, NUL, NUL, NUL, NUL],
      name = ''USB Camera'' @ [NUL, NUL, NUL, NUL, NUL, NUL],
      serial_number = ''SN123'' @ [NUL, NUL, NUL]\<rparr>"

text \<open>Another V4L2 camera, in fields of the same capacities.\<close>

definition webcam :: tis_device_info where
  "webcam =
     \<lparr>type = 1,
      identifier = ''/dev/video1'' @ [NUL, NUL, NUL, NUL, NUL],
      name = ''Webcam'' @ [NUL, NUL, NUL, NUL, NUL, NUL, NUL, NUL, NUL, NUL],
      serial_number = ''A7'' @ [NUL, NUL, NUL, NUL, NUL, NUL]\<rparr>"

text \<open>
  A record of the same capacities in which every text field holds a second string behind
  the terminator of the first, as a reused buffer does.
\<close>

definition stale_tails :: tis_device_info where
  "stale_tails =
     \<lparr>type = 1,
      identifier = ''/dev/video0'' @ [NUL] @ ''100'' @ [NUL],
      name = ''USB Camera'' @ [NUL] @ ''Pro'' @ [NUL, NUL],
      serial_number = ''SN1'' @ [NUL] @ ''old'' @ [NUL]\<rparr>"

text \<open>
  A record of the same capacities whose name fills its array: 16 characters and no
  terminator.
\<close>

definition full_name :: tis_device_info where
  "full_name = usb_camera\<lparr>name := ''USB Camera 3000x''\<rparr>"

text \<open>What unconstructed storage may hold: no terminator anywhere, no named type.\<close>

definition junk :: tis_device_info where
  "junk =
     \<lparr>type = - 7,
      identifier = ''????????????????'',
      name = ''################'',
      serial_number = ''%%%%%%%%''\<rparr>"

text \<open>A store whose record at location 0 is \<open>r\<close>; every other object is unconstructed.\<close>

definition store_with :: "tis_device_info \<Rightarrow> state" where
  "store_with r =
     \<lparr>devices = (\<lambda>_. \<lparr>device = junk\<rparr>),
      infos = (\<lambda>a. if a = 0 then r else junk)\<rparr>"

section \<open>Properties\<close>

subsection \<open>Construction from a record\<close>

text \<open>
  Claim C1. For every device record, constructing a descriptor from it and calling
  \<^verbatim>\<open>getInfo\<close> gives back a record equal to it in every field: the wrapped record is
  the input record itself, every element of every array included, and the caller's
  record is left as it was.
\<close>

theorem construct_getInfo_roundtrip:
  "device (devices (CaptureDevice_from_info s this device_desc) this) = infos s device_desc
   \<and> infos (getInfo (CaptureDevice_from_info s this device_desc) this ret) ret
       = infos s device_desc
   \<and> type (infos (getInfo (CaptureDevice_from_info s this device_desc) this ret) ret)
       = type (infos s device_desc)
   \<and> identifier (infos (getInfo (CaptureDevice_from_info s this device_desc) this ret) ret)
       = identifier (infos s device_desc)
   \<and> name (infos (getInfo (CaptureDevice_from_info s this device_desc) this ret) ret)
       = name (infos s device_desc)
   \<and> serial_number (infos (getInfo (CaptureDevice_from_info s this device_desc) this ret) ret)
       = serial_number (infos s device_desc)
   \<and> infos (CaptureDevice_from_info s this device_desc) = infos s"
  by (simp add: CaptureDevice_from_info_def getInfo_def)

subsection \<open>C strings in arrays\<close>

lemma memset_zero_replicate: "memset_zero buf = replicate (length buf) NUL"
  by (simp add: memset_zero_def map_replicate_const)

lemma std_string_prefix:
  "NUL \<notin> set pre \<Longrightarrow> std_string (pre @ NUL # rest) = Some pre"
  by (induction pre) auto

lemma std_string_unterminated: "NUL \<notin> set buf \<Longrightarrow> std_string buf = None"
  by (induction buf) auto

lemma std_string_terminated:
  "NUL \<in> set buf \<Longrightarrow> std_string buf = Some (takeWhile (\<lambda>c. c \<noteq> NUL) buf)"
  by (induction buf) auto

lemma std_string_zeroed: "buf \<noteq> [] \<Longrightarrow> std_string (memset_zero buf) = Some []"
  by (cases buf) (simp_all add: memset_zero_def)

lemma c_enum_values_simps:
  "c_enum_values TIS_DEVICE_TYPE_UNKNOWN = 0"
  "c_enum_values TIS_DEVICE_TYPE_V4L2 = 1"
  "c_enum_values TIS_DEVICE_TYPE_ARAVIS = 2"
  "c_enum_values TIS_DEVICE_TYPE_FIREWIRE = 3"
  by (simp_all add: c_enum_values_def)

subsection \<open>The display string of the type\<close>

text \<open>
  Claim C2. \<^verbatim>\<open>getDeviceTypeAsString\<close> is a total function of the stored type: it
  returns "V4L2" for V4L2, "Aravis" for ARAVIS, "Firewire" for FIREWIRE, and the empty
  string for UNKNOWN and for every other value of the field, named or not. The function
  has a string for every store and every object (it has no failure value), and the string
  is always one of these four. The enumerators are four different values, as the
  enumerators of the header are.
\<close>

theorem getDeviceTypeAsString_table:
  assumes "distinct [val TIS_DEVICE_TYPE_UNKNOWN, val TIS_DEVICE_TYPE_V4L2,
                     val TIS_DEVICE_TYPE_ARAVIS, val TIS_DEVICE_TYPE_FIREWIRE]"
  shows "(getDeviceType s this = val TIS_DEVICE_TYPE_V4L2
            \<longrightarrow> getDeviceTypeAsString val s this = ''V4L2'')
       \<and> (getDeviceType s this = val TIS_DEVICE_TYPE_ARAVIS
            \<longrightarrow> getDeviceTypeAsString val s this = ''Aravis'')
       \<and> (getDeviceType s this = val TIS_DEVICE_TYPE_FIREWIRE
            \<longrightarrow> getDeviceTypeAsString val s this = ''Firewire'')
       \<and> (getDeviceType s this = val TIS_DEVICE_TYPE_UNKNOWN
            \<longrightarrow> getDeviceTypeAsString val s this = '''')
       \<and> (getDeviceType s this \<notin> {val TIS_DEVICE_TYPE_V4L2, val TIS_DEVICE_TYPE_ARAVIS,
                                    val TIS_DEVICE_TYPE_FIREWIRE}
            \<longrightarrow> getDeviceTypeAsString val s this = '''')
       \<and> getDeviceTypeAsString val s this \<in> {''V4L2'', ''Aravis'', ''Firewire'', ''''}"
  using assms by (auto simp add: getDeviceTypeAsString_def getDeviceType_def Let_def)

theorem getDeviceTypeAsString_table_witness:
  "distinct [c_enum_values TIS_DEVICE_TYPE_UNKNOWN, c_enum_values TIS_DEVICE_TYPE_V4L2,
             c_enum_values TIS_DEVICE_TYPE_ARAVIS, c_enum_values TIS_DEVICE_TYPE_FIREWIRE]
   \<and> getDeviceType (CaptureDevice_from_info (store_with usb_camera) 1 0) 1 = 1
   \<and> getDeviceTypeAsString c_enum_values
        (CaptureDevice_from_info (store_with usb_camera) 1 0) 1 = ''V4L2''
   \<and> getDeviceTypeAsString c_enum_values
        (CaptureDevice_from_info (store_with (usb_camera\<lparr>type := 2\<rparr>)) 1 0) 1 = ''Aravis''
   \<and> getDeviceTypeAsString c_enum_values
        (CaptureDevice_from_info (store_with (usb_camera\<lparr>type := 3\<rparr>)) 1 0) 1 = ''Firewire''
   \<and> getDeviceTypeAsString c_enum_values
        (CaptureDevice_from_info (store_with (usb_camera\<lparr>type := 0\<rparr>)) 1 0) 1 = ''''
   \<and> getDeviceTypeAsString c_enum_values
        (CaptureDevice_from_info (store_with (usb_camera\<lparr>type := 42\<rparr>)) 1 0) 1 = ''''
   \<and> getDeviceTypeAsString c_enum_values
        (CaptureDevice_from_info (store_with (usb_camera\<lparr>type := - 1\<rparr>)) 1 0) 1 = ''''"
proof -
  have d: "distinct [c_enum_values TIS_DEVICE_TYPE_UNKNOWN, c_enum_values TIS_DEVICE_TYPE_V4L2,
             c_enum_values TIS_DEVICE_TYPE_ARAVIS, c_enum_values TIS_DEVICE_TYPE_FIREWIRE]"
    by (simp add: c_enum_values_simps)
  have t: "getDeviceType (CaptureDevice_from_info (store_with r) a 0) a = type r" for r a
    by (simp add: getDeviceType_def CaptureDevice_from_info_def store_with_def)
  have u: "type usb_camera = 1"
    by (simp add: usb_camera_def)
  note tab = getDeviceTypeAsString_table [OF d, where this = 1]
  show ?thesis
    using d tab [of "CaptureDevice_from_info (store_with usb_camera) 1 0"]
      tab [of "CaptureDevice_from_info (store_with (usb_camera\<lparr>type := 2\<rparr>)) 1 0"]
      tab [of "CaptureDevice_from_info (store_with (usb_camera\<lparr>type := 3\<rparr>)) 1 0"]
      tab [of "CaptureDevice_from_info (store_with (usb_camera\<lparr>type := 0\<rparr>)) 1 0"]
      tab [of "CaptureDevice_from_info (store_with (usb_camera\<lparr>type := 42\<rparr>)) 1 0"]
      tab [of "CaptureDevice_from_info (store_with (usb_camera\<lparr>type := - 1\<rparr>)) 1 0"]
    by (simp add: t u c_enum_values_simps)
qed

subsection \<open>Default construction\<close>

text \<open>
  Claim C3. After default construction \<^verbatim>\<open>getDeviceType\<close> is UNKNOWN and \<^verbatim>\<open>getName\<close>,
  \<^verbatim>\<open>getSerial\<close> and \<^verbatim>\<open>getIdentifier\<close> return the empty string. Whatever the storage
  held before, the record is then fully determined: the type is UNKNOWN and every
  element of every text field is zero, so nothing is left uninitialised. An array of
  C++ has at least one element: that is what the three accessors need to find the
  terminator.
\<close>

theorem default_construction:
  "getDeviceType (CaptureDevice_default val s this) this = val TIS_DEVICE_TYPE_UNKNOWN
   \<and> device (devices (CaptureDevice_default val s this) this) =
       \<lparr>type = val TIS_DEVICE_TYPE_UNKNOWN,
        identifier = replicate (length (identifier (device (devices s this)))) NUL,
        name = replicate (length (name (device (devices s this)))) NUL,
        serial_number = replicate (length (serial_number (device (devices s this)))) NUL\<rparr>
   \<and> (name (device (devices s this)) \<noteq> []
        \<longrightarrow> getName (CaptureDevice_default val s this) this = Some '''')
   \<and> (serial_number (device (devices s this)) \<noteq> []
        \<longrightarrow> getSerial (CaptureDevice_default val s this) this = Some '''')
   \<and> (identifier (device (devices s this)) \<noteq> []
        \<longrightarrow> getIdentifier (CaptureDevice_default val s this) this = Some '''')"
proof -
  let ?d = "device (devices (CaptureDevice_default val s this) this)"
  have fields:
    "type ?d = val TIS_DEVICE_TYPE_UNKNOWN"
    "identifier ?d = memset_zero (identifier (device (devices s this)))"
    "name ?d = memset_zero (name (device (devices s this)))"
    "serial_number ?d = memset_zero (serial_number (device (devices s this)))"
    by (simp_all add: CaptureDevice_default_def Let_def)
  have "getDeviceType (CaptureDevice_default val s this) this = val TIS_DEVICE_TYPE_UNKNOWN"
    by (simp add: getDeviceType_def fields)
  moreover have "?d =
       \<lparr>type = val TIS_DEVICE_TYPE_UNKNOWN,
        identifier = replicate (length (identifier (device (devices s this)))) NUL,
        name = replicate (length (name (device (devices s this)))) NUL,
        serial_number = replicate (length (serial_number (device (devices s this)))) NUL\<rparr>"
    by (rule tis_device_info.equality) (simp_all add: fields memset_zero_replicate)
  moreover have "name (device (devices s this)) \<noteq> []
        \<longrightarrow> getName (CaptureDevice_default val s this) this = Some ''''"
    by (simp add: getName_def fields std_string_zeroed)
  moreover have "serial_number (device (devices s this)) \<noteq> []
        \<longrightarrow> getSerial (CaptureDevice_default val s this) this = Some ''''"
    by (simp add: getSerial_def fields std_string_zeroed)
  moreover have "identifier (device (devices s this)) \<noteq> []
        \<longrightarrow> getIdentifier (CaptureDevice_default val s this) this = Some ''''"
    by (simp add: getIdentifier_def fields std_string_zeroed)
  ultimately show ?thesis by blast
qed

theorem default_construction_witness:
  "name (device (devices (store_with usb_camera) 2)) = ''################''
   \<and> serial_number (device (devices (store_with usb_camera) 2)) = ''%%%%%%%%''
   \<and> identifier (device (devices (store_with usb_camera) 2)) = ''????????????????''
   \<and> getDeviceType (CaptureDevice_default c_enum_values (store_with usb_camera) 2) 2 = 0
   \<and> getName (CaptureDevice_default c_enum_values (store_with usb_camera) 2) 2 = Some ''''
   \<and> getSerial (CaptureDevice_default c_enum_values (store_with usb_camera) 2) 2 = Some ''''
   \<and> getIdentifier (CaptureDevice_default c_enum_values (store_with usb_camera) 2) 2 = Some ''''
   \<and> device (devices (CaptureDevice_default c_enum_values (store_with usb_camera) 2) 2) =
       \<lparr>type = 0, identifier = replicate 16 NUL, name = replicate 16 NUL,
        serial_number = replicate 8 NUL\<rparr>"
proof -
  have j: "device (devices (store_with usb_camera) 2) = junk"
    by (simp add: store_with_def)
  have r: "replicate 16 NUL = [NUL, NUL, NUL, NUL, NUL, NUL, NUL, NUL,
                                NUL, NUL, NUL, NUL, NUL, NUL, NUL, NUL]"
    "replicate 8 NUL = [NUL, NUL, NUL, NUL, NUL, NUL, NUL, NUL]"
    by (simp_all add: eval_nat_numeral)
  show ?thesis
    using default_construction [of c_enum_values "store_with usb_camera" 2]
    by (simp add: j junk_def c_enum_values_simps r)
qed

subsection \<open>Assignment\<close>

lemma operator_assign_device:
  "device (devices (snd (operator_assign s this other)) a) =
     (if a = this then device (devices s other) else device (devices s a))"
  by (simp add: operator_assign_def)

lemma operator_assign_infos: "infos (snd (operator_assign s this other)) = infos s"
  by (simp add: operator_assign_def)

lemma CaptureDevice_from_info_device:
  "device (devices (CaptureDevice_from_info s this device_desc) a) =
     (if a = this then infos s device_desc else device (devices s a))"
  by (simp add: CaptureDevice_from_info_def)

lemma CaptureDevice_default_other:
  "a \<noteq> this \<Longrightarrow> devices (CaptureDevice_default val s this) a = devices s a"
  by (simp add: CaptureDevice_default_def Let_def)

lemma CaptureDevice_default_infos: "infos (CaptureDevice_default val s this) = infos s"
  by (simp add: CaptureDevice_default_def Let_def)

text \<open>
  Claim C4. For every pair of descriptors \<open>d\<close> (at \<open>this\<close>) and \<open>other\<close>, after the
  assignment \<^verbatim>\<open>getInfo\<close> of \<open>d\<close> gives the record that \<^verbatim>\<open>getInfo\<close> of \<open>other\<close> gives: the
  whole wrapped record is replaced by the one \<open>other\<close> held, in all four fields. The
  reference returned is \<open>d\<close> itself, so that in \<^verbatim>\<open>e = d = other\<close> the descriptor \<open>e\<close>
  receives the record of \<open>other\<close> too. No other descriptor and no record of the caller
  changes. When \<open>other\<close> is another object than \<open>d\<close>, changing \<open>other\<close> afterwards, by
  an assignment or by constructing it anew, leaves \<open>d\<close> as the assignment made it.
\<close>

theorem assign_copies_whole_record:
  "fst (operator_assign s this other) = this
   \<and> device (devices (snd (operator_assign s this other)) this) = device (devices s other)
   \<and> infos (getInfo (snd (operator_assign s this other)) this ret) ret
       = infos (getInfo (snd (operator_assign s this other)) other ret) ret
   \<and> infos (getInfo (snd (operator_assign s this other)) this ret) ret
       = infos (getInfo s other ret) ret
   \<and> type (device (devices (snd (operator_assign s this other)) this))
       = type (device (devices s other))
   \<and> identifier (device (devices (snd (operator_assign s this other)) this))
       = identifier (device (devices s other))
   \<and> name (device (devices (snd (operator_assign s this other)) this))
       = name (device (devices s other))
   \<and> serial_number (device (devices (snd (operator_assign s this other)) this))
       = serial_number (device (devices s other))
   \<and> device (devices (snd (operator_assign (snd (operator_assign s this other)) e
                              (fst (operator_assign s this other)))) e)
       = device (devices s other)
   \<and> (\<forall>a. a \<noteq> this \<longrightarrow> devices (snd (operator_assign s this other)) a = devices s a)
   \<and> infos (snd (operator_assign s this other)) = infos s
   \<and> (this \<noteq> other \<longrightarrow>
        device (devices (snd (operator_assign (snd (operator_assign s this other))
                                other third)) this)
          = device (devices s other)
        \<and> device (devices (CaptureDevice_from_info (snd (operator_assign s this other))
                             other device_desc) this)
          = device (devices s other)
        \<and> device (devices (CaptureDevice_default val (snd (operator_assign s this other))
                             other) this)
          = device (devices s other))"
proof -
  let ?s' = "snd (operator_assign s this other)"
  have ref: "fst (operator_assign s this other) = this"
    by (simp add: operator_assign_def)
  have dev: "device (devices ?s' this) = device (devices s other)"
    by (simp add: operator_assign_device)
  have same: "device (devices ?s' other) = device (devices s other)"
    by (simp add: operator_assign_device)
  have get1: "infos (getInfo ?s' this ret) ret = infos (getInfo ?s' other ret) ret"
    by (simp add: getInfo_def dev same)
  have get2: "infos (getInfo ?s' this ret) ret = infos (getInfo s other ret) ret"
    by (simp add: getInfo_def dev)
  have chain: "device (devices (snd (operator_assign ?s' e (fst (operator_assign s this other)))) e)
                 = device (devices s other)"
    by (simp add: ref operator_assign_device dev)
  have frame: "\<forall>a. a \<noteq> this \<longrightarrow> devices ?s' a = devices s a"
    by (simp add: operator_assign_def)
  have later: "device (devices (snd (operator_assign ?s' other third)) this)
                 = device (devices s other)
        \<and> device (devices (CaptureDevice_from_info ?s' other device_desc) this)
                 = device (devices s other)
        \<and> device (devices (CaptureDevice_default val ?s' other) this)
                 = device (devices s other)" if "this \<noteq> other"
    using that by (simp add: operator_assign_device CaptureDevice_from_info_device
        CaptureDevice_default_other dev)
  show ?thesis
    using ref dev get1 get2 chain frame later
    by (simp add: operator_assign_infos)
qed

theorem assign_copies_whole_record_witness:
  "(1::addr) \<noteq> 2
   \<and> fst (operator_assign (CaptureDevice_from_info (store_with usb_camera) 2 0) 1 2) = 1
   \<and> device (devices (snd (operator_assign
               (CaptureDevice_from_info (store_with usb_camera) 2 0) 1 2)) 1) = usb_camera
   \<and> device (devices (snd (operator_assign
               (CaptureDevice_from_info (store_with usb_camera) 2 0) 1 2)) 3) = junk
   \<and> device (devices (CaptureDevice_default c_enum_values
               (snd (operator_assign
                 (CaptureDevice_from_info (store_with usb_camera) 2 0) 1 2)) 2) 1) = usb_camera
   \<and> device (devices (snd (operator_assign
               (snd (operator_assign
                 (CaptureDevice_from_info (store_with usb_camera) 2 0) 1 2)) 2 3)) 1)
       = usb_camera"
proof -
  have src: "device (devices (CaptureDevice_from_info (store_with usb_camera) 2 0) 2)
               = usb_camera"
    by (simp add: CaptureDevice_from_info_def store_with_def)
  have old: "devices (CaptureDevice_from_info (store_with usb_camera) 2 0) 3
               = \<lparr>device = junk\<rparr>"
    by (simp add: CaptureDevice_from_info_def store_with_def)
  have ne: "(1::addr) \<noteq> 2" "(3::addr) \<noteq> 1"
    by simp_all
  show ?thesis
    using ne assign_copies_whole_record
      [of "CaptureDevice_from_info (store_with usb_camera) 2 0" 1 2 _ _ 3 _ c_enum_values]
    by (simp add: src old)
qed

text \<open>
  Claim C10. Assigning a descriptor to itself changes nothing: the store after the
  assignment is the store before it, and \<^verbatim>\<open>getInfo\<close> gives the same record as before.
\<close>

theorem self_assignment_identity:
  "operator_assign s this this = (this, s)
   \<and> device (devices (snd (operator_assign s this this)) this) = device (devices s this)
   \<and> infos (getInfo (snd (operator_assign s this this)) this ret) ret
       = infos (getInfo s this ret) ret"
  by (simp add: operator_assign_def getInfo_def)

subsection \<open>Reading the record\<close>

text \<open>
  Claim C5. \<^verbatim>\<open>getInfo\<close> has no side effect and its result is a copy of its own: the
  call changes no descriptor and no record other than the result object, which then
  holds the wrapped record. Changing the descriptor afterwards (by an assignment or by
  constructing it anew) leaves the copy as it was returned, and writing any record
  \<open>v\<close> over the copy leaves the descriptor as it was.
\<close>

theorem getInfo_independent_copy:
  "devices (getInfo s this ret) = devices s
   \<and> infos (getInfo s this ret) = (infos s)(ret := device (devices s this))
   \<and> infos (getInfo s this ret) ret = device (devices s this)
   \<and> infos (snd (operator_assign (getInfo s this ret) this other)) ret
       = device (devices s this)
   \<and> infos (CaptureDevice_from_info (getInfo s this ret) this device_desc) ret
       = device (devices s this)
   \<and> infos (CaptureDevice_default val (getInfo s this ret) this) ret
       = device (devices s this)
   \<and> devices ((getInfo s this ret)\<lparr>infos := (infos (getInfo s this ret))(ret := v)\<rparr>)
       = devices s
   \<and> infos (getInfo ((getInfo s this ret)\<lparr>infos := (infos (getInfo s this ret))(ret := v)\<rparr>)
               this ret') ret'
       = device (devices s this)"
proof -
  have d: "devices (getInfo s this ret) = devices s"
    by (simp add: getInfo_def)
  have i: "infos (getInfo s this ret) = (infos s)(ret := device (devices s this))"
    by (simp add: getInfo_def)
  have a: "infos (snd (operator_assign (getInfo s this ret) this other)) ret
             = device (devices s this)"
    by (simp add: operator_assign_infos i)
  have c: "infos (CaptureDevice_from_info (getInfo s this ret) this device_desc) ret
             = device (devices s this)"
    by (simp add: CaptureDevice_from_info_def i)
  have n: "infos (CaptureDevice_default val (getInfo s this ret) this) ret
             = device (devices s this)"
    by (simp add: CaptureDevice_default_infos i)
  have w: "infos (getInfo ((getInfo s this ret)\<lparr>infos := (infos (getInfo s this ret))(ret := v)\<rparr>)
                    this ret') ret'
             = device (devices s this)"
    by (simp add: getInfo_def)
  show ?thesis
    using d i a c n w by simp
qed

subsection \<open>No validation\<close>

text \<open>
  Claim C7. The constructor from a record validates nothing: for every record, whatever
  its text fields and whatever the integer in its type field, named by an enumerator or
  not, the descriptor holds the record as it is, and \<^verbatim>\<open>getDeviceType\<close> returns the value
  of the type field that the caller supplied.
\<close>

theorem construct_accepts_any_record:
  "getDeviceType (CaptureDevice_from_info s this device_desc) this = type (infos s device_desc)
   \<and> getDeviceType
        (CaptureDevice_from_info (s\<lparr>infos := (infos s)(device_desc := r)\<rparr>) this device_desc)
        this = type r
   \<and> device (devices
        (CaptureDevice_from_info (s\<lparr>infos := (infos s)(device_desc := r)\<rparr>) this device_desc)
        this) = r"
  by (simp add: getDeviceType_def CaptureDevice_from_info_def)

subsection \<open>The type string depends on the type only\<close>

text \<open>
  Claim C9. Two descriptors with the same stored type have the same display string,
  whatever their identifiers, names and serial numbers are, in the same store or in two.
\<close>

theorem getDeviceTypeAsString_noninterference:
  "getDeviceType s1 this1 = getDeviceType s2 this2
   \<Longrightarrow> getDeviceTypeAsString val s1 this1 = getDeviceTypeAsString val s2 this2"
  by (simp add: getDeviceTypeAsString_def getDeviceType_def)

theorem getDeviceTypeAsString_noninterference_witness:
  "getDeviceType (CaptureDevice_from_info (store_with usb_camera) 1 0) 1
     = getDeviceType (CaptureDevice_from_info (store_with webcam) 4 0) 4
   \<and> identifier (device (devices (CaptureDevice_from_info (store_with usb_camera) 1 0) 1))
       \<noteq> identifier (device (devices (CaptureDevice_from_info (store_with webcam) 4 0) 4))
   \<and> name (device (devices (CaptureDevice_from_info (store_with usb_camera) 1 0) 1))
       \<noteq> name (device (devices (CaptureDevice_from_info (store_with webcam) 4 0) 4))
   \<and> serial_number (device (devices (CaptureDevice_from_info (store_with usb_camera) 1 0) 1))
       \<noteq> serial_number (device (devices (CaptureDevice_from_info (store_with webcam) 4 0) 4))
   \<and> getDeviceTypeAsString c_enum_values (CaptureDevice_from_info (store_with usb_camera) 1 0) 1
       = getDeviceTypeAsString c_enum_values (CaptureDevice_from_info (store_with webcam) 4 0) 4"
proof -
  have d: "device (devices (CaptureDevice_from_info (store_with r) a 0) a) = r" for r a
    by (simp add: CaptureDevice_from_info_def store_with_def)
  have t: "getDeviceType (CaptureDevice_from_info (store_with usb_camera) 1 0) 1
             = getDeviceType (CaptureDevice_from_info (store_with webcam) 4 0) 4"
    by (simp add: getDeviceType_def d usb_camera_def webcam_def)
  have f: "identifier usb_camera \<noteq> identifier webcam" "name usb_camera \<noteq> name webcam"
    "serial_number usb_camera \<noteq> serial_number webcam"
    by (simp_all add: usb_camera_def webcam_def)
  show ?thesis
    using t f getDeviceTypeAsString_noninterference [OF t, of c_enum_values]
    by (simp add: d)
qed

subsection \<open>The text accessors\<close>

text \<open>
  Claim C8. When a text field holds a zero element before the end of its array, the
  accessor of that field returns only the characters in front of the first zero, while
  the record that \<^verbatim>\<open>getInfo\<close> copies out has the whole array, the elements behind that
  zero included.
\<close>

theorem text_accessors_stop_at_first_NUL:
  "(name (device (devices s this)) = pre @ NUL # rest \<and> NUL \<notin> set pre
      \<longrightarrow> getName s this = Some pre
        \<and> name (infos (getInfo s this ret) ret) = pre @ NUL # rest)
   \<and> (serial_number (device (devices s this)) = pre' @ NUL # rest' \<and> NUL \<notin> set pre'
      \<longrightarrow> getSerial s this = Some pre'
        \<and> serial_number (infos (getInfo s this ret') ret') = pre' @ NUL # rest')
   \<and> (identifier (device (devices s this)) = pre'' @ NUL # rest'' \<and> NUL \<notin> set pre''
      \<longrightarrow> getIdentifier s this = Some pre''
        \<and> identifier (infos (getInfo s this ret'') ret'') = pre'' @ NUL # rest'')"
  by (simp add: getName_def getSerial_def getIdentifier_def getInfo_def std_string_prefix)

theorem text_accessors_stop_at_first_NUL_witness:
  "name (device (devices (CaptureDevice_from_info (store_with stale_tails) 1 0) 1))
     = ''USB Camera'' @ NUL # ''Pro'' @ [NUL, NUL]
   \<and> NUL \<notin> set ''USB Camera''
   \<and> getName (CaptureDevice_from_info (store_with stale_tails) 1 0) 1 = Some ''USB Camera''
   \<and> name (infos (getInfo (CaptureDevice_from_info (store_with stale_tails) 1 0) 1 5) 5)
       = ''USB Camera'' @ NUL # ''Pro'' @ [NUL, NUL]
   \<and> serial_number (device (devices (CaptureDevice_from_info (store_with stale_tails) 1 0) 1))
       = ''SN1'' @ NUL # ''old'' @ [NUL]
   \<and> NUL \<notin> set ''SN1''
   \<and> getSerial (CaptureDevice_from_info (store_with stale_tails) 1 0) 1 = Some ''SN1''
   \<and> serial_number
        (infos (getInfo (CaptureDevice_from_info (store_with stale_tails) 1 0) 1 5) 5)
       = ''SN1'' @ NUL # ''old'' @ [NUL]
   \<and> identifier (device (devices (CaptureDevice_from_info (store_with stale_tails) 1 0) 1))
       = ''/dev/video0'' @ NUL # ''100'' @ [NUL]
   \<and> NUL \<notin> set ''/dev/video0''
   \<and> getIdentifier (CaptureDevice_from_info (store_with stale_tails) 1 0) 1
       = Some ''/dev/video0''
   \<and> identifier
        (infos (getInfo (CaptureDevice_from_info (store_with stale_tails) 1 0) 1 5) 5)
       = ''/dev/video0'' @ NUL # ''100'' @ [NUL]"
proof -
  let ?s = "CaptureDevice_from_info (store_with stale_tails) 1 0"
  have f: "name (device (devices ?s 1)) = ''USB Camera'' @ NUL # ''Pro'' @ [NUL, NUL]"
    "serial_number (device (devices ?s 1)) = ''SN1'' @ NUL # ''old'' @ [NUL]"
    "identifier (device (devices ?s 1)) = ''/dev/video0'' @ NUL # ''100'' @ [NUL]"
    by (simp_all add: CaptureDevice_from_info_def store_with_def stale_tails_def)
  have n: "NUL \<notin> set ''USB Camera''" "NUL \<notin> set ''SN1''" "NUL \<notin> set ''/dev/video0''"
    by (simp_all add: NUL_def)
  have "getName ?s 1 = Some ''USB Camera''
        \<and> name (infos (getInfo ?s 1 5) 5) = ''USB Camera'' @ NUL # ''Pro'' @ [NUL, NUL]"
    using f(1) n(1)
      text_accessors_stop_at_first_NUL [of ?s 1 "''USB Camera''" "''Pro'' @ [NUL, NUL]"]
    by blast
  moreover have "getSerial ?s 1 = Some ''SN1''
        \<and> serial_number (infos (getInfo ?s 1 5) 5) = ''SN1'' @ NUL # ''old'' @ [NUL]"
    using f(2) n(2)
      text_accessors_stop_at_first_NUL [of ?s 1 _ _ _ "''SN1''" "''old'' @ [NUL]"]
    by blast
  moreover have "getIdentifier ?s 1 = Some ''/dev/video0''
        \<and> identifier (infos (getInfo ?s 1 5) 5) = ''/dev/video0'' @ NUL # ''100'' @ [NUL]"
    using f(3) n(3)
      text_accessors_stop_at_first_NUL
        [of ?s 1 _ _ _ _ _ _ "''/dev/video0''" "''100'' @ [NUL]"]
    by blast
  ultimately show ?thesis
    using f n by blast
qed

lemma text_accessors_unterminated:
  "NUL \<notin> set (name (device (devices s this))) \<Longrightarrow> getName s this = None"
  "NUL \<notin> set (serial_number (device (devices s this))) \<Longrightarrow> getSerial s this = None"
  "NUL \<notin> set (identifier (device (devices s this))) \<Longrightarrow> getIdentifier s this = None"
  by (simp_all add: getName_def getSerial_def getIdentifier_def std_string_unterminated)

text \<open>
  Claim C6 reads: for every descriptor, \<^verbatim>\<open>getName\<close>, \<^verbatim>\<open>getSerial\<close> and \<^verbatim>\<open>getIdentifier\<close>
  return the stored text of their field. The constructor takes any record, also one
  whose name fills its array (here 16 characters in an array of 16). That field has no
  terminator: the conversion to \<^verbatim>\<open>std::string\<close> runs past the end of the array, and
  the accessor does not return the stored name. By \<open>text_accessors_unterminated\<close> this
  is so for a full field of any capacity.
\<close>

theorem getName_unterminated_counterexample:
  "name (device (devices (CaptureDevice_from_info (store_with full_name) 1 0) 1))
     = ''USB Camera 3000x''
   \<and> getName (CaptureDevice_from_info (store_with full_name) 1 0) 1 = None
   \<and> getName (CaptureDevice_from_info (store_with full_name) 1 0) 1
       \<noteq> Some ''USB Camera 3000x''"
  by (simp add: getName_def CaptureDevice_from_info_def store_with_def full_name_def
      usb_camera_def NUL_def)

text \<open>
  Claim C6, amended. For every descriptor and each of the three text fields: when the
  field holds a terminator, the accessor of that field (\<^verbatim>\<open>getName\<close> for \<open>name\<close>,
  \<^verbatim>\<open>getSerial\<close> for \<open>serial_number\<close>, \<^verbatim>\<open>getIdentifier\<close> for \<open>identifier\<close>) returns
  the characters of the field in front of its first terminator, all of them, in their
  order and unchanged; for a field of at least one element that holds zeros only, this
  is the empty string.
\<close>

theorem text_accessors_return_terminated_text:
  "(NUL \<in> set (name (device (devices s this)))
      \<longrightarrow> getName s this
            = Some (takeWhile (\<lambda>c. c \<noteq> NUL) (name (device (devices s this)))))
   \<and> (NUL \<in> set (serial_number (device (devices s this)))
      \<longrightarrow> getSerial s this
            = Some (takeWhile (\<lambda>c. c \<noteq> NUL) (serial_number (device (devices s this)))))
   \<and> (NUL \<in> set (identifier (device (devices s this)))
      \<longrightarrow> getIdentifier s this
            = Some (takeWhile (\<lambda>c. c \<noteq> NUL) (identifier (device (devices s this)))))
   \<and> (name (device (devices s this)) = replicate (Suc n) NUL
      \<longrightarrow> getName s this = Some '''')
   \<and> (serial_number (device (devices s this)) = replicate (Suc n') NUL
      \<longrightarrow> getSerial s this = Some '''')
   \<and> (identifier (device (devices s this)) = replicate (Suc n'') NUL
      \<longrightarrow> getIdentifier s this = Some '''')"
  by (simp add: getName_def getSerial_def getIdentifier_def std_string_terminated)

theorem text_accessors_return_terminated_text_witness:
  "NUL \<in> set (name (device (devices (CaptureDevice_from_info (store_with usb_camera) 1 0) 1)))
   \<and> NUL \<in> set (serial_number
                 (device (devices (CaptureDevice_from_info (store_with usb_camera) 1 0) 1)))
   \<and> NUL \<in> set (identifier
                 (device (devices (CaptureDevice_from_info (store_with usb_camera) 1 0) 1)))
   \<and> getName (CaptureDevice_from_info (store_with usb_camera) 1 0) 1 = Some ''USB Camera''
   \<and> getSerial (CaptureDevice_from_info (store_with usb_camera) 1 0) 1 = Some ''SN123''
   \<and> getIdentifier (CaptureDevice_from_info (store_with usb_camera) 1 0) 1
       = Some ''/dev/video0''
   \<and> name (device (devices (CaptureDevice_default c_enum_values (store_with usb_camera) 1) 1))
       = replicate (Suc 15) NUL
   \<and> serial_number
        (device (devices (CaptureDevice_default c_enum_values (store_with usb_camera) 1) 1))
       = replicate (Suc 7) NUL
   \<and> identifier
        (device (devices (CaptureDevice_default c_enum_values (store_with usb_camera) 1) 1))
       = replicate (Suc 15) NUL
   \<and> getName (CaptureDevice_default c_enum_values (store_with usb_camera) 1) 1 = Some ''''
   \<and> getSerial (CaptureDevice_default c_enum_values (store_with usb_camera) 1) 1 = Some ''''
   \<and> getIdentifier (CaptureDevice_default c_enum_values (store_with usb_camera) 1) 1
       = Some ''''"
proof -
  let ?s = "CaptureDevice_from_info (store_with usb_camera) 1 0"
  let ?z = "CaptureDevice_default c_enum_values (store_with usb_camera) 1"
  have d: "device (devices ?s 1) = usb_camera"
    by (simp add: CaptureDevice_from_info_def store_with_def)
  have z: "name (device (devices ?z 1)) = replicate (Suc 15) NUL"
    "serial_number (device (devices ?z 1)) = replicate (Suc 7) NUL"
    "identifier (device (devices ?z 1)) = replicate (Suc 15) NUL"
    by (simp_all add: CaptureDevice_default_def Let_def store_with_def junk_def
        memset_zero_def eval_nat_numeral)
  have n: "NUL \<in> set (name (device (devices ?s 1)))"
    "NUL \<in> set (serial_number (device (devices ?s 1)))"
    "NUL \<in> set (identifier (device (devices ?s 1)))"
    unfolding d by (simp_all add: usb_camera_def)
  have c: "takeWhile (\<lambda>c. c \<noteq> NUL) (name (device (devices ?s 1))) = ''USB Camera''"
    "takeWhile (\<lambda>c. c \<noteq> NUL) (serial_number (device (devices ?s 1))) = ''SN123''"
    "takeWhile (\<lambda>c. c \<noteq> NUL) (identifier (device (devices ?s 1))) = ''/dev/video0''"
    unfolding d by (simp_all add: usb_camera_def NUL_def)
  note acc = text_accessors_return_terminated_text [of ?s 1]
  note zero = text_accessors_return_terminated_text [of ?z 1 15 7 15]
  have "getName ?s 1 = Some ''USB Camera''"
    using acc n(1) c(1) by simp
  moreover have "getSerial ?s 1 = Some ''SN123''"
    using acc n(2) c(2) by simp
  moreover have "getIdentifier ?s 1 = Some ''/dev/video0''"
    using acc n(3) c(3) by simp
  moreover have "getName ?z 1 = Some ''''"
    using zero z(1) by simp
  moreover have "getSerial ?z 1 = Some ''''"
    using zero z(2) by simp
  moreover have "getIdentifier ?z 1 = Some ''''"
    using zero z(3) by simp
  ultimately show ?thesis
    using n z by (simp only: simp_thms)
qed

end
